theory Spec2Isabelle
  imports Complex_Main
begin

section \<open>Python values shared by the monitoring scripts\<close>

text \<open>
  The repository holds four command-line scripts under \<^verbatim>\<open>monitoring/\<close>. Each talks to
  cloud management endpoints through client objects; the endpoints are modelled as
  oracles (records of responses), every raise as a value of \<open>exn\<close>, every mutation of
  \<^verbatim>\<open>self.results\<close> and every printed line as a change of an explicit state.

  Printed lines are kept one string per \<^verbatim>\<open>print\<close> call. The pictograph that starts most
  messages is outside ASCII and is written as a bracketed tag (\<open>[ok]\<close>, \<open>[x]\<close>,
  \<open>[!]\<close>, ...), a bullet as \<open>*\<close>; the rest of each message is the source's text.
\<close>

datatype exn =
    Exception string
  | KeyError string
  | UnboundLocalError string
  | IndexError string
  | FileNotFoundError string
  | YAMLError string
  | KeyboardInterrupt

text \<open>\<^verbatim>\<open>except Exception\<close> catches every exception class above but \<^verbatim>\<open>KeyboardInterrupt\<close>,
  which derives from \<^verbatim>\<open>BaseException\<close> only.\<close>

fun is_Exception :: "exn \<Rightarrow> bool" where
  "is_Exception KeyboardInterrupt = False"
| "is_Exception _ = True"

fun is_FileNotFoundError :: "exn \<Rightarrow> bool" where
  "is_FileNotFoundError (FileNotFoundError _) = True"
| "is_FileNotFoundError _ = False"

fun is_YAMLError :: "exn \<Rightarrow> bool" where
  "is_YAMLError (YAMLError _) = True"
| "is_YAMLError _ = False"

definition quote :: "string \<Rightarrow> string" where
  "quote s = [CHR 0x27] @ s @ [CHR 0x27]"

text \<open>\<^verbatim>\<open>str(e)\<close>: the message of the exception; for a \<^verbatim>\<open>KeyError\<close> the repr of the key.\<close>

fun str_exn :: "exn \<Rightarrow> string" where
  "str_exn (Exception m) = m"
| "str_exn (KeyError k) = quote k"
| "str_exn (UnboundLocalError x) =
     ''cannot access local variable '' @ quote x @ '' where it is not associated with a value''"
| "str_exn (IndexError m) = m"
| "str_exn (FileNotFoundError m) = m"
| "str_exn (YAMLError m) = m"
| "str_exn KeyboardInterrupt = []"

text \<open>\<^verbatim>\<open>str(n)\<close> for a non-negative integer.\<close>

fun str_nat :: "nat \<Rightarrow> string" where
  "str_nat n =
     (if n < 10 then [char_of (48 + n)]
      else str_nat (n div 10) @ [char_of (48 + n mod 10)])"

declare str_nat.simps [simp del]

text \<open>\<^verbatim>\<open>sep.join(xs)\<close>.\<close>

fun join :: "string \<Rightarrow> string list \<Rightarrow> string" where
  "join sep [] = []"
| "join sep [x] = x"
| "join sep (x # y # xs) = x @ sep @ join sep (y # xs)"

text \<open>\<^verbatim>\<open>s.startswith(p)\<close> and \<^verbatim>\<open>sub in s\<close> on strings.\<close>

definition startswith :: "string \<Rightarrow> string \<Rightarrow> bool" where
  "startswith s p = (take (length p) s = p)"

fun str_in :: "string \<Rightarrow> string \<Rightarrow> bool" where
  "str_in sub [] = (sub = [])"
| "str_in sub (c # s) = (startswith (c # s) sub \<or> str_in sub s)"

text \<open>\<^verbatim>\<open>s.replace(old, new)\<close>: every non-overlapping occurrence of \<open>old\<close>, scanning
  from the left. Only called with a non-empty \<open>old\<close> here; for an empty \<open>old\<close> the
  model returns \<open>s\<close> unchanged.\<close>

function replace :: "string \<Rightarrow> string \<Rightarrow> string \<Rightarrow> string" where
  "replace [] old new = []"
| "replace (c # s) old new =
     (if old \<noteq> [] \<and> startswith (c # s) old
      then new @ replace (drop (length old) (c # s)) old new
      else c # replace s old new)"
  by pat_completeness auto
termination
  by (relation "measure (\<lambda>(s, old, new). length s)") (auto simp: neq_Nil_conv)

declare replace.simps(2) [simp del]

text \<open>\<^verbatim>\<open>s.lower()\<close> and \<^verbatim>\<open>s.title()\<close> on ASCII text; characters outside \<open>A-Z\<close> and
  \<open>a-z\<close> are cased as themselves.\<close>

definition is_upper :: "char \<Rightarrow> bool" where
  "is_upper c = (65 \<le> (of_char c :: nat) \<and> (of_char c :: nat) \<le> 90)"

definition is_lower :: "char \<Rightarrow> bool" where
  "is_lower c = (97 \<le> (of_char c :: nat) \<and> (of_char c :: nat) \<le> 122)"

definition lower_char :: "char \<Rightarrow> char" where
  "lower_char c = (if is_upper c then char_of ((of_char c :: nat) + 32) else c)"

definition upper_char :: "char \<Rightarrow> char" where
  "upper_char c = (if is_lower c then char_of ((of_char c :: nat) - 32) else c)"

definition lower :: "string \<Rightarrow> string" where
  "lower s = map lower_char s"

fun title_from :: "bool \<Rightarrow> string \<Rightarrow> string" where
  "title_from in_word [] = []"
| "title_from in_word (c # s) =
     (if is_upper c \<or> is_lower c
      then (if in_word then lower_char c else upper_char c) # title_from True s
      else c # title_from False s)"

definition title :: "string \<Rightarrow> string" where
  "title s = title_from False s"

section \<open>The validation aggregator (\<^verbatim>\<open>validate-monitoring.py\<close>)\<close>

subsection \<open>The result accumulator\<close>

text \<open>One entry of a category's \<^verbatim>\<open>'tests'\<close> list.\<close>

record test_entry =
  name :: string
  passed :: bool
  details :: string

text \<open>
  One value of the \<^verbatim>\<open>self.results\<close> dictionary. The four component categories are
  created with the keys \<^verbatim>\<open>'passed'\<close>, \<^verbatim>\<open>'failed'\<close> and \<^verbatim>\<open>'tests'\<close>; the entry
  \<^verbatim>\<open>'overall'\<close> is created with \<^verbatim>\<open>'passed'\<close> and \<^verbatim>\<open>'failed'\<close> only, so its \<open>tests\<close>
  is \<open>None\<close> (the key is absent). The counters start at 0 and are only ever incremented,
  hence natural numbers.
\<close>

record category =
  passed :: nat
  failed :: nat
  tests :: "test_entry list option"

datatype api_call =
    ListEntries
  | ListMetricDescriptors
  | ListTimeSeries string
  | ListDashboards
  | GetProjectBillingInfo
  | ListBudgets string

text \<open>The lines printed to standard output so far; every script's state extends it.\<close>

record console =
  out :: "string list"

text \<open>The state of one run: the validator object's fields, the lines printed so far
  and the calls made to the cloud endpoints so far.\<close>

record validator = console +
  project_id :: string
  project_name :: string
  results :: "string \<rightharpoonup> category"
  calls :: "api_call list"

text \<open>A statement: it ends normally (\<open>None\<close>) or raises (\<open>Some e\<close>), and in both cases
  leaves a state behind.\<close>

type_synonym 's stmt = "'s \<Rightarrow> exn option \<times> 's"

type_synonym step = "validator stmt"

definition skip :: "'s stmt" where
  "skip v = (None, v)"

definition raise :: "exn \<Rightarrow> 's stmt" where
  "raise e v = (Some e, v)"

definition seq :: "'s stmt \<Rightarrow> 's stmt \<Rightarrow> 's stmt" where
  "seq f g v = (case f v of (None, v') \<Rightarrow> g v' | (Some e, v') \<Rightarrow> (Some e, v'))"

text \<open>\<^verbatim>\<open>try: f  except Exception as e: h e\<close>.\<close>

definition try_except :: "'s stmt \<Rightarrow> (exn \<Rightarrow> 's stmt) \<Rightarrow> 's stmt" where
  "try_except f h v =
     (case f v of
        (None, v') \<Rightarrow> (None, v')
      | (Some e, v') \<Rightarrow> if is_Exception e then h e v' else (Some e, v'))"

definition print :: "string \<Rightarrow> ('a console_scheme) stmt" where
  "print s v = (None, v\<lparr>out := out v @ [s]\<rparr>)"

definition api :: "api_call \<Rightarrow> step" where
  "api c v = (None, v\<lparr>calls := calls v @ [c]\<rparr>)"

definition init_results :: "string \<rightharpoonup> category" where
  "init_results =
     [''structured_logging'' \<mapsto> \<lparr>passed = 0, failed = 0, tests = Some []\<rparr>,
      ''log_metrics'' \<mapsto> \<lparr>passed = 0, failed = 0, tests = Some []\<rparr>,
      ''dashboard'' \<mapsto> \<lparr>passed = 0, failed = 0, tests = Some []\<rparr>,
      ''budgets'' \<mapsto> \<lparr>passed = 0, failed = 0, tests = Some []\<rparr>,
      ''overall'' \<mapsto> \<lparr>passed = 0, failed = 0, tests = None\<rparr>]"

text \<open>\<^verbatim>\<open>MonitoringValidator.__init__\<close>, after the clients have been constructed.\<close>

definition init_validator :: "string \<Rightarrow> validator" where
  "init_validator pid =
     \<lparr>out = [], project_id = pid, project_name = ''projects/'' @ pid,
      results = init_results, calls = []\<rparr>"

text \<open>\<^verbatim>\<open>self.results[category]['passed'] += 1\<close> and the same for \<^verbatim>\<open>'failed'\<close>.\<close>

definition incr_passed :: "string \<Rightarrow> step" where
  "incr_passed category v =
     (case results v category of
        None \<Rightarrow> (Some (KeyError category), v)
      | Some c \<Rightarrow> (None, v\<lparr>results := (results v)(category \<mapsto> c\<lparr>passed := passed c + 1\<rparr>)\<rparr>))"

definition incr_failed :: "string \<Rightarrow> step" where
  "incr_failed category v =
     (case results v category of
        None \<Rightarrow> (Some (KeyError category), v)
      | Some c \<Rightarrow> (None, v\<lparr>results := (results v)(category \<mapsto> c\<lparr>failed := failed c + 1\<rparr>)\<rparr>))"

text \<open>\<^verbatim>\<open>self.results[category]['tests'].append({...})\<close>.\<close>

definition append_test :: "string \<Rightarrow> test_entry \<Rightarrow> step" where
  "append_test category t v =
     (case results v category of
        None \<Rightarrow> (Some (KeyError category), v)
      | Some c \<Rightarrow>
          (case tests c of
             None \<Rightarrow> (Some (KeyError ''tests''), v)
           | Some ts \<Rightarrow>
               (None, v\<lparr>results := (results v)(category \<mapsto> c\<lparr>tests := Some (ts @ [t])\<rparr>)\<rparr>)))"

definition log_test_result :: "string \<Rightarrow> string \<Rightarrow> bool \<Rightarrow> string \<Rightarrow> step" where
  "log_test_result category test_name psd dtl =
     seq (append_test category \<lparr>name = test_name, test_entry.passed = psd, details = dtl\<rparr>)
       (if psd then
          seq (incr_passed category)
            (seq (incr_passed ''overall'') (print (''[ok] '' @ test_name)))
        else
          seq (incr_failed category)
            (seq (incr_failed ''overall'')
               (seq (print (''[x] '' @ test_name))
                  (if dtl \<noteq> [] then print (''   Details: '' @ dtl) else skip))))"

subsection \<open>The cloud endpoints and local files, as oracles\<close>

text \<open>A log entry's payload: a text payload has no \<^verbatim>\<open>get\<close> attribute; a JSON payload is
  a mapping, of which the run reads the entry \<^verbatim>\<open>'structuredData'\<close> only: \<open>None\<close> when
  the key is absent, else the keys of that mapping (an empty mapping is falsy).\<close>

datatype payload = TextPayload string | JsonPayload "string list option"

text \<open>One entry of the metrics catalog \<^verbatim>\<open>log-metrics.yaml\<close>: a mapping in which every key
  may be present or absent.\<close>

record descriptor_config =
  metricKind :: "string option"
  valueType :: "string option"

record metric_config =
  mc_name :: "string option"
  mc_description :: "string option"
  mc_filter :: "string option"
  valueExtractor :: "string option"
  labelExtractors :: "(string \<times> string) list option"
  metricDescriptor :: "descriptor_config option"

record metrics_catalog =
  metrics :: "metric_config list option"
  dashboardMetrics :: "(string \<times> string list) list option"

text \<open>A widget of a deployed dashboard as the listing returns it: the filter strings of
  the chart's data sets (\<open>None\<close>: no chart set), the scorecard's filter string.\<close>

record widget =
  xy_chart :: "string list option"
  scorecard :: "string option"

record dashboard =
  display_name :: string
  mosaic_layout :: "widget list option"

record billing_info =
  billing_enabled :: bool
  billing_account_name :: string

record listed_budget =
  budget_display_name :: string
  threshold_rules_count :: nat

text \<open>What the outside world answers during one run. A call that raises answers
  \<open>Inl e\<close>.\<close>

record env =
  list_entries :: "exn + payload list"
  open_log_metrics_yaml :: "exn + metrics_catalog"
  list_metric_descriptors :: "exn + string list"
  list_time_series :: "string \<Rightarrow> exn + string list"
  list_dashboards :: "exn + dashboard list"
  hash_order :: bool
  billing_client :: "exn option"
  get_project_billing_info :: "exn + billing_info"
  budgets_client :: "exn option"
  list_budgets :: "string \<Rightarrow> exn + listed_budget list"
  now :: string
  init_clients :: "exn option"
  write_report :: "string \<Rightarrow> exn option"

text \<open>A call to an endpoint: the call is recorded, then its answer is handed to the
  continuation or raised.\<close>

definition call :: "api_call \<Rightarrow> exn + 'a \<Rightarrow> ('a \<Rightarrow> step) \<Rightarrow> step" where
  "call c answer k =
     seq (api c) (case answer of Inl e \<Rightarrow> raise e | Inr x \<Rightarrow> k x)"

text \<open>The repr of a list of plain strings, \<^verbatim>\<open>['a', 'b']\<close>.\<close>

definition repr_list :: "string list \<Rightarrow> string" where
  "repr_list xs = ''['' @ join '', '' (map quote xs) @ '']''"

subsection \<open>\<^verbatim>\<open>test_structured_logging\<close>\<close>

definition required_fields :: "string list" where
  "required_fields = [''eventType'', ''timestamp'', ''functionName'']"

definition test_structured_logging :: "env \<Rightarrow> step" where
  "test_structured_logging E =
     seq (print (CHR 0x0A # ''[..] Testing Structured Logging...''))
       (try_except
          (call ListEntries (list_entries E) (\<lambda>entries.
             if entries \<noteq> [] then
               seq (log_test_result ''structured_logging'' ''Structured logs present'' True
                      (''Found '' @ str_nat (length entries) @ '' structured log entries''))
                 (case hd entries of
                    JsonPayload (Some structured_data) \<Rightarrow>
                      if structured_data \<noteq> [] then
                        (let missing_fields =
                               filter (\<lambda>field. field \<notin> set structured_data) required_fields
                         in if missing_fields = [] then
                              log_test_result ''structured_logging'' ''Log structure validation'' True
                                (''All required fields present: '' @ repr_list required_fields)
                            else
                              log_test_result ''structured_logging'' ''Log structure validation'' False
                                (''Missing fields: '' @ repr_list missing_fields))
                      else
                        log_test_result ''structured_logging'' ''Log structure validation'' False
                          ''No structured data found in log payload''
                  | _ \<Rightarrow>
                      log_test_result ''structured_logging'' ''Log structure validation'' False
                        ''No structured data found in log payload'')
             else
               log_test_result ''structured_logging'' ''Structured logs present'' False
                 ''No structured logs found. Deploy Cloud Functions first.''))
          (\<lambda>e. log_test_result ''structured_logging'' ''Structured logging access'' False
                  (''Error accessing logs: '' @ str_exn e)))"

subsection \<open>\<^verbatim>\<open>test_log_metrics\<close>\<close>

definition default_metric_list :: "string list" where
  "default_metric_list =
     [''session_creation_rate'', ''generation_requests_total'',
      ''generation_success_rate'', ''generation_latency_ms'',
      ''vertex_ai_latency_ms'', ''feedback_ratings'', ''error_rate'']"

text \<open>\<^verbatim>\<open>[metric['name'] for metric in xs]\<close>: a missing key raises \<^verbatim>\<open>KeyError\<close>.\<close>

fun metric_names :: "metric_config list \<Rightarrow> exn + string list" where
  "metric_names [] = Inr []"
| "metric_names (m # ms) =
     (case mc_name m of
        None \<Rightarrow> Inl (KeyError ''name'')
      | Some n \<Rightarrow> (case metric_names ms of Inl e \<Rightarrow> Inl e | Inr ns \<Rightarrow> Inr (n # ns)))"

text \<open>\<^verbatim>\<open>cfg.get('metrics', [])\<close>.\<close>

definition get_metrics :: "metrics_catalog \<Rightarrow> metric_config list" where
  "get_metrics cfg = (case metrics cfg of None \<Rightarrow> [] | Some ms \<Rightarrow> ms)"

text \<open>The first \<^verbatim>\<open>try\<close> of \<^verbatim>\<open>test_log_metrics\<close>: the expected metric names, from the catalog
  file or, when the file is not found, the built-in list (with a printed warning). Any
  other exception leaves the method.\<close>

definition load_expected_metrics :: "env \<Rightarrow> validator \<Rightarrow> (exn + string list) \<times> validator" where
  "load_expected_metrics E v =
     (case open_log_metrics_yaml E of
        Inr metrics_config \<Rightarrow> (metric_names (get_metrics metrics_config), v)
      | Inl e \<Rightarrow>
          if is_FileNotFoundError e then
            (Inr default_metric_list,
             snd (print ''[!]  log-metrics.yaml not found, using default metric list'' v))
          else (Inl e, v))"

definition user_prefix :: string where
  "user_prefix = ''logging.googleapis.com/user/''"

definition user_metrics_of :: "string list \<Rightarrow> string list" where
  "user_metrics_of types =
     map (\<lambda>t. replace t user_prefix []) (filter (\<lambda>t. startswith t user_prefix) types)"

text \<open>The local variable \<^verbatim>\<open>found_metrics\<close> after the second \<^verbatim>\<open>try\<close>: it is assigned
  only once the descriptor listing has answered; \<open>None\<close> is the unbound variable.\<close>

definition found_metrics_binding :: "env \<Rightarrow> string list \<Rightarrow> string list option" where
  "found_metrics_binding E expected_metrics =
     (case list_metric_descriptors E of
        Inl e \<Rightarrow> None
      | Inr types \<Rightarrow> Some (filter (\<lambda>m. m \<in> set (user_metrics_of types)) expected_metrics))"

text \<open>The block \<^verbatim>\<open># Test 1: Check if metrics exist\<close>.\<close>

definition metrics_existence_test :: "env \<Rightarrow> string list \<Rightarrow> step" where
  "metrics_existence_test E expected_metrics =
     try_except
       (call ListMetricDescriptors (list_metric_descriptors E) (\<lambda>types.
          let user_metrics = user_metrics_of types;
              found_metrics = filter (\<lambda>m. m \<in> set user_metrics) expected_metrics;
              missing_metrics = filter (\<lambda>m. m \<notin> set user_metrics) expected_metrics
          in seq (log_test_result ''log_metrics'' ''Log metrics existence''
                    (length found_metrics > 0)
                    (''Found: '' @ str_nat (length found_metrics) @
                     '', Missing: '' @ str_nat (length missing_metrics)))
               (if missing_metrics \<noteq> [] then
                  seq (print (''   Missing metrics: '' @ join '', '' (take 5 missing_metrics)))
                    (if length missing_metrics > 5 then
                       print (''   ... and '' @ str_nat (length missing_metrics - 5) @ '' more'')
                     else skip)
                else skip)))
       (\<lambda>e. log_test_result ''log_metrics'' ''Log metrics access'' False
               (''Error accessing metrics: '' @ str_exn e))"

text \<open>The block \<^verbatim>\<open># Test 2: Check for metric data\<close>. Its condition reads
  \<^verbatim>\<open>found_metrics\<close>, which raises when the variable is unbound.\<close>

definition metric_data_test :: "env \<Rightarrow> string list \<Rightarrow> step" where
  "metric_data_test E expected_metrics =
     (case found_metrics_binding E expected_metrics of
        None \<Rightarrow> raise (UnboundLocalError ''found_metrics'')
      | Some found_metrics \<Rightarrow>
          if found_metrics \<noteq> [] then
            try_except
              (let test_metric = user_prefix @ hd found_metrics;
                   flt = ''metric.type='' @ [CHR 0x22] @ test_metric @ [CHR 0x22]
               in call (ListTimeSeries flt) (list_time_series E flt) (\<lambda>time_series.
                    log_test_result ''log_metrics'' ''Metric data availability''
                      (length time_series > 0)
                      (''Found '' @ str_nat (length time_series) @
                       '' time series for '' @ hd found_metrics)))
              (\<lambda>e. log_test_result ''log_metrics'' ''Metric data query'' False
                      (''Error querying metric data: '' @ str_exn e))
          else skip)"

definition test_log_metrics :: "env \<Rightarrow> step" where
  "test_log_metrics E v0 =
     (case load_expected_metrics E
             (snd (print (CHR 0x0A # ''[..] Testing Log-Based Metrics...'') v0)) of
        (Inl e, v) \<Rightarrow> (Some e, v)
      | (Inr expected_metrics, v) \<Rightarrow>
          seq (metrics_existence_test E expected_metrics)
            (metric_data_test E expected_metrics) v)"

subsection \<open>\<^verbatim>\<open>test_dashboard\<close>\<close>

text \<open>The loop that collects \<^verbatim>\<open>widget_types\<close>: both tests are made for every tile.\<close>

definition widget_types_of :: "widget list \<Rightarrow> string list" where
  "widget_types_of tiles =
     concat (map (\<lambda>w. (if xy_chart w \<noteq> None then [''xy_chart''] else []) @
                       (if scorecard w \<noteq> None then [''scorecard''] else [])) tiles)"

text \<open>The loop that collects \<^verbatim>\<open>metric_references\<close>: the filter strings of chart data
  sets and of scorecards that mention the user-metric prefix.\<close>

definition metric_references_of :: "widget list \<Rightarrow> string list" where
  "metric_references_of tiles =
     concat (map (\<lambda>w.
        (case xy_chart w of
           None \<Rightarrow> []
         | Some data_sets \<Rightarrow> filter (\<lambda>filter_str. str_in user_prefix filter_str) data_sets) @
        (case scorecard w of
           None \<Rightarrow> []
         | Some filter_str \<Rightarrow> if str_in user_prefix filter_str then [filter_str] else [])) tiles)"

text \<open>The repr of \<^verbatim>\<open>set(widget_types)\<close>. The order in which a set of strings is
  written depends on the run's string hashing; \<open>hash_order\<close> of the environment says
  which of the two element names comes first.\<close>

definition repr_set :: "bool \<Rightarrow> string list \<Rightarrow> string" where
  "repr_set chart_first xs =
     (let elems = filter (\<lambda>x. x \<in> set xs)
            (if chart_first then [''xy_chart'', ''scorecard''] else [''scorecard'', ''xy_chart''])
      in if elems = [] then ''set()'' else ''{'' @ join '', '' (map quote elems) @ ''}'')"

definition test_dashboard :: "env \<Rightarrow> step" where
  "test_dashboard E =
     seq (print (CHR 0x0A # ''[..] Testing Monitoring Dashboard...''))
       (try_except
          (call ListDashboards (list_dashboards E) (\<lambda>dashboards.
             let dressup_dashboards =
                   filter (\<lambda>d. str_in ''DressUp AI'' (display_name d)) dashboards
             in seq (log_test_result ''dashboard'' ''Dashboard existence''
                       (length dressup_dashboards > 0)
                       (''Found '' @ str_nat (length dressup_dashboards) @ '' DressUp AI dashboard(s)''))
                  (if dressup_dashboards \<noteq> [] then
                     (case mosaic_layout (hd dressup_dashboards) of
                        Some tiles \<Rightarrow>
                          (let widget_types = widget_types_of tiles;
                               metric_references = metric_references_of tiles
                           in seq (log_test_result ''dashboard'' ''Dashboard widget configuration''
                                     (length widget_types > 0)
                                     (''Found '' @ str_nat (length widget_types) @ '' widgets: '' @
                                      repr_set (hash_order E) widget_types))
                                (log_test_result ''dashboard'' ''Dashboard metric references''
                                   (length metric_references > 0)
                                   (''Found '' @ str_nat (length metric_references) @
                                    '' metric references'')))
                      | None \<Rightarrow>
                          log_test_result ''dashboard'' ''Dashboard layout validation'' False
                            ''Dashboard has no mosaic layout'')
                   else skip)))
          (\<lambda>e. log_test_result ''dashboard'' ''Dashboard access'' False
                  (''Error accessing dashboard: '' @ str_exn e)))"

subsection \<open>\<^verbatim>\<open>test_budget_alerts\<close>\<close>

text \<open>A \<^verbatim>\<open>for\<close> loop whose body is a statement.\<close>

fun for_each :: "'a list \<Rightarrow> ('a \<Rightarrow> 's stmt) \<Rightarrow> 's stmt" where
  "for_each [] body = skip"
| "for_each (x # xs) body = seq (body x) (for_each xs body)"

text \<open>The construction of a client object: it may raise, and makes no call.\<close>

definition construct :: "exn option \<Rightarrow> 's stmt" where
  "construct r = (case r of None \<Rightarrow> skip | Some e \<Rightarrow> raise e)"

definition test_budget_alerts :: "env \<Rightarrow> step" where
  "test_budget_alerts E =
     seq (print (CHR 0x0A # ''[..] Testing Budget Alerts...''))
       (try_except
          (seq (construct (billing_client E))
             (call GetProjectBillingInfo (get_project_billing_info E) (\<lambda>project_billing.
                if \<not> billing_enabled project_billing then
                  log_test_result ''budgets'' ''Billing enabled'' False
                    ''Billing is not enabled for this project''
                else
                  seq (log_test_result ''budgets'' ''Billing enabled'' True
                         ''Project has billing enabled'')
                    (try_except
                       (seq (construct (budgets_client E))
                          (let billing_account = billing_account_name project_billing
                           in call (ListBudgets billing_account) (list_budgets E billing_account)
                                (\<lambda>budget_list.
                                   let dressup_budgets =
                                         filter (\<lambda>b. str_in ''DressUp AI'' (budget_display_name b))
                                           budget_list
                                   in seq (log_test_result ''budgets'' ''Budget alerts existence''
                                             (length dressup_budgets > 0)
                                             (''Found '' @ str_nat (length dressup_budgets) @
                                              '' DressUp AI budget(s)''))
                                        (for_each dressup_budgets (\<lambda>budget.
                                           log_test_result ''budgets''
                                             (''Budget threshold configuration - '' @
                                              budget_display_name budget)
                                             (threshold_rules_count budget \<ge> 4)
                                             (''Has '' @ str_nat (threshold_rules_count budget) @
                                              '' threshold rules''))))))
                       (\<lambda>e. log_test_result ''budgets'' ''Budget alerts access'' False
                               (''Error accessing budgets: '' @ str_exn e))))))
          (\<lambda>e. log_test_result ''budgets'' ''Billing API access'' False
                  (''Error accessing billing API: '' @ str_exn e)))"

subsection \<open>\<^verbatim>\<open>test_end_to_end_flow\<close>\<close>

definition pipeline_components :: "(string \<times> string) list" where
  "pipeline_components =
     [(''Cloud Functions'', ''structured_logging''),
      (''Log-based Metrics'', ''log_metrics''),
      (''Monitoring Dashboard'', ''dashboard''),
      (''Budget Alerts'', ''budgets'')]"

text \<open>The loop that collects \<^verbatim>\<open>working_components\<close>; reading a category that is not a
  key of \<^verbatim>\<open>self.results\<close> raises.\<close>

fun working_components_of ::
  "(string \<rightharpoonup> category) \<Rightarrow> (string \<times> string) list \<Rightarrow> exn + string list" where
  "working_components_of r [] = Inr []"
| "working_components_of r ((component_name, category) # cs) =
     (case r category of
        None \<Rightarrow> Inl (KeyError category)
      | Some c \<Rightarrow>
          (case working_components_of r cs of
             Inl e \<Rightarrow> Inl e
           | Inr ws \<Rightarrow> Inr (if passed c > 0 then component_name # ws else ws)))"

definition test_end_to_end_flow :: step where
  "test_end_to_end_flow =
     seq (print (CHR 0x0A # ''[..] Testing End-to-End Monitoring Flow...''))
       (\<lambda>v. case working_components_of (results v) pipeline_components of
               Inl e \<Rightarrow> (Some e, v)
             | Inr working_components \<Rightarrow>
                 log_test_result ''overall'' ''Monitoring pipeline completeness''
                   (length working_components \<ge> 3)
                   (''Working components: '' @ join '', '' working_components) v)"

subsection \<open>\<^verbatim>\<open>generate_validation_report\<close>\<close>

text \<open>
  Double-precision floating point. A finite double that is not negative is kept as the
  rational number it denotes. \<open>double_of x\<close> is the double nearest to the rational
  \<open>x\<close>, ties to the even significand: the result of one correctly rounded operation
  (the true division of two integers, a product of doubles) whose exact value is \<open>x\<close>.
  The significand has 53 bits; below \<open>2 powi -1022\<close> the spacing is
  \<open>2 powi -1074\<close>. The overflow threshold is never reached here: every rate is at
  most 100.
\<close>

definition round_half_even :: "rat \<Rightarrow> int" where
  "round_half_even x =
     (let fl = \<lfloor>x\<rfloor>; fr = x - of_int fl
      in if fr > 1 / 2 \<or> (fr = 1 / 2 \<and> odd fl) then fl + 1 else fl)"

text \<open>The number of binary digits of a positive integer.\<close>

function bitlen :: "int \<Rightarrow> nat" where
  "bitlen a = (if a \<le> 0 then 0 else Suc (bitlen (a div 2)))"
  by pat_completeness auto
termination
  by (relation "measure nat") auto

declare bitlen.simps [simp del]

text \<open>The binary exponent of a positive rational: the \<open>e\<close> with
  \<open>2 powi e \<le> x < 2 powi (e + 1)\<close>.\<close>

definition binade :: "rat \<Rightarrow> int" where
  "binade x =
     (case quotient_of x of (a, b) \<Rightarrow>
        (let k = int (bitlen a) - int (bitlen b)
         in if 2 powi k \<le> x then k else k - 1))"

definition double_of :: "rat \<Rightarrow> rat" where
  "double_of x =
     (if x \<le> 0 then 0
      else (let q = max (binade x - 52) (- 1074)
            in of_int (round_half_even (x / 2 powi q)) * 2 powi q))"

text \<open>
  The success rate \<^verbatim>\<open>passed / total * 100 if total > 0 else 0\<close>: the quotient of the
  two integers rounded to a double, then its product with 100 rounded to a double; with
  no test, the integer 0.
\<close>

definition success_rate_of :: "nat \<Rightarrow> nat \<Rightarrow> rat" where
  "success_rate_of p n =
     (if n > 0 then double_of (double_of (of_nat p / of_nat n) * 100) else 0)"

definition status_of :: "rat \<Rightarrow> string" where
  "status_of rate = (if rate \<ge> 75 then ''PASS'' else ''FAIL'')"

text \<open>The format \<^verbatim>\<open>f"{x:.1f}%"\<close> of a rate: the decimal with one fractional digit
  nearest to the exact value of the double, ties to even.\<close>

definition fmt_rate :: "rat \<Rightarrow> string" where
  "fmt_rate x =
     (let t = nat (round_half_even (x * 10))
      in str_nat (t div 10) @ ''.'' @ str_nat (t mod 10) @ ''%'')"

record category_report =
  status :: string
  cr_success_rate :: string
  cr_passed :: nat
  cr_failed :: nat
  cr_tests :: "test_entry list"

record report =
  r_project_id :: string
  validation_timestamp :: string
  overall_status :: string
  success_rate :: string
  total_tests :: nat
  passed_tests :: nat
  failed_tests :: nat
  categories :: "(string \<times> category_report) list"

definition component_categories :: "string list" where
  "component_categories = [''structured_logging'', ''log_metrics'', ''dashboard'', ''budgets'']"

text \<open>The body of the loop over the four categories.\<close>

definition category_report_of :: "(string \<rightharpoonup> category) \<Rightarrow> string \<Rightarrow> exn + category_report" where
  "category_report_of r cat =
     (case r cat of
        None \<Rightarrow> Inl (KeyError cat)
      | Some c \<Rightarrow>
          (let category_total = passed c + failed c;
               category_success = success_rate_of (passed c) category_total
           in case tests c of
                None \<Rightarrow> Inl (KeyError ''tests'')
              | Some ts \<Rightarrow>
                  Inr \<lparr>status = status_of category_success,
                       cr_success_rate = fmt_rate category_success,
                       cr_passed = passed c, cr_failed = failed c, cr_tests = ts\<rparr>))"

fun category_reports ::
  "(string \<rightharpoonup> category) \<Rightarrow> string list \<Rightarrow> exn + (string \<times> category_report) list" where
  "category_reports r [] = Inr []"
| "category_reports r (cat # cats) =
     (case category_report_of r cat of
        Inl e \<Rightarrow> Inl e
      | Inr cr \<Rightarrow>
          (case category_reports r cats of
             Inl e \<Rightarrow> Inl e
           | Inr crs \<Rightarrow> Inr ((cat, cr) # crs)))"

definition generate_validation_report :: "env \<Rightarrow> validator \<Rightarrow> exn + report" where
  "generate_validation_report E v =
     (case results v ''overall'' of
        None \<Rightarrow> Inl (KeyError ''overall'')
      | Some ov \<Rightarrow>
          (let total_count = passed ov + failed ov;
               rate = success_rate_of (passed ov) total_count
           in case category_reports (results v) component_categories of
                Inl e \<Rightarrow> Inl e
              | Inr crs \<Rightarrow>
                  Inr \<lparr>r_project_id = project_id v,
                       validation_timestamp = now E,
                       overall_status = status_of rate,
                       success_rate = fmt_rate rate,
                       total_tests = total_count,
                       passed_tests = passed ov,
                       failed_tests = failed ov,
                       categories = crs\<rparr>))"

subsection \<open>\<^verbatim>\<open>run_validation\<close> and \<^verbatim>\<open>main\<close>\<close>

definition summary_line :: "string \<times> category_report \<Rightarrow> string" where
  "summary_line p =
     (case p of (category, data) \<Rightarrow>
        (if status data = ''PASS'' then ''[green]'' else ''[red]'') @ '' '' @
        title (replace category ''_'' '' '') @ '': '' @ cr_success_rate data @
        '' ('' @ str_nat (cr_passed data) @ ''/'' @ str_nat (cr_passed data + cr_failed data) @ '')'')"

definition print_summary :: "report \<Rightarrow> step" where
  "print_summary rep =
     seq (print (CHR 0x0A # replicate 60 CHR ''=''))
    (seq (print ''[..] VALIDATION SUMMARY'')
    (seq (print (replicate 60 CHR ''=''))
    (seq (print (''Overall Status: '' @
                 (if overall_status rep = ''PASS'' then ''[green] PASS'' else ''[red] FAIL'')))
    (seq (print (''Success Rate: '' @ success_rate rep))
    (seq (print (''Tests Passed: '' @ str_nat (passed_tests rep) @ ''/'' @
                 str_nat (total_tests rep)))
    (seq (print [])
    (seq (for_each (categories rep) (\<lambda>p. print (summary_line p)))
    (seq (print [])
       (if overall_status rep = ''PASS'' then
          seq (print ''[..] Monitoring pipeline validation successful!'')
            (print ''[ok] Your DressUp AI monitoring system is ready for production.'')
        else
          seq (print ''[!]  Monitoring pipeline needs attention.'')
            (print ''[..] Review failed tests and ensure all components are properly deployed.''))))))))))"

text \<open>The five test groups, in the order in which \<^verbatim>\<open>run_validation\<close> calls them.\<close>

definition run_tests :: "env \<Rightarrow> step" where
  "run_tests E =
     seq (test_structured_logging E)
    (seq (test_log_metrics E)
    (seq (test_dashboard E)
    (seq (test_budget_alerts E)
       test_end_to_end_flow)))"

definition run_validation :: "env \<Rightarrow> validator \<Rightarrow> (exn + report) \<times> validator" where
  "run_validation E v0 =
     (case seq (print ''[..] Starting DressUp AI Monitoring Validation'')
            (seq (print (''[..] Project: '' @ project_id v0))
            (seq (print (replicate 60 CHR ''=''))
               (run_tests E))) v0 of
        (Some e, v) \<Rightarrow> (Inl e, v)
      | (None, v) \<Rightarrow>
          (case generate_validation_report E v of
             Inl e \<Rightarrow> (Inl e, v)
           | Inr rep \<Rightarrow>
               (case print_summary rep v of
                  (Some e, v') \<Rightarrow> (Inl e, v')
                | (None, v') \<Rightarrow> (Inr rep, v'))))"

record args =
  arg_project_id :: string
  report_file :: "string option"
  verbose :: bool

text \<open>
  \<^verbatim>\<open>main\<close>: the exit status of the process and the lines printed to standard output.
  \<^verbatim>\<open>sys.exit\<close> raises \<^verbatim>\<open>SystemExit\<close>, which neither handler of \<^verbatim>\<open>main\<close> catches, so
  the status passed to it is the status of the process. The traceback of the verbose
  mode goes to standard error and is not kept.
\<close>

definition on_error :: "exn \<Rightarrow> string list \<Rightarrow> int \<times> string list" where
  "on_error e printed =
     (if is_Exception e
      then (1, printed @ [''[x] Validation failed with error: '' @ str_exn e])
      else (1, printed @ [CHR 0x0A # ''[!]  Validation interrupted by user'']))"

definition main :: "args \<Rightarrow> env \<Rightarrow> int \<times> string list" where
  "main a E =
     (case init_clients E of
        Some e \<Rightarrow> on_error e []
      | None \<Rightarrow>
          (case run_validation E (init_validator (arg_project_id a)) of
             (Inl e, v) \<Rightarrow> on_error e (out v)
           | (Inr rep, v) \<Rightarrow>
               (case report_file a of
                  Some path \<Rightarrow>
                    (case write_report E path of
                       Some e \<Rightarrow> on_error e (out v)
                     | None \<Rightarrow>
                         (if overall_status rep = ''PASS'' then 0 else 1,
                          out v @ [CHR 0x0A # ''[..] Validation report saved to: '' @ path]))
                | None \<Rightarrow> (if overall_status rep = ''PASS'' then 0 else 1, out v))))"

section \<open>The log-metric provisioner (\<^verbatim>\<open>create-log-metrics.py\<close>)\<close>

datatype metric_kind = METRIC_KIND_UNSPECIFIED | GAUGE | DELTA | CUMULATIVE

datatype value_type =
  VALUE_TYPE_UNSPECIFIED | BOOL | INT64 | DOUBLE | STRING | DISTRIBUTION | MONEY

text \<open>The \<^verbatim>\<open>LogMetric\<close> request object.\<close>

record log_metric =
  lm_name :: string
  lm_description :: string
  lm_filter :: string
  value_extractor :: string
  label_extractors :: "(string \<times> string) list"
  metric_kind :: metric_kind
  value_type :: value_type

text \<open>The logging endpoint: what it answers to a create call (parent, metric) and to an
  update call (metric name, metric).\<close>

record metrics_client =
  create_answer :: "string \<Rightarrow> log_metric \<Rightarrow> exn + log_metric"
  update_answer :: "string \<Rightarrow> log_metric \<Rightarrow> exn + log_metric"

datatype request =
    CreateLogMetric string log_metric
  | UpdateLogMetric string log_metric

record provisioner = console +
  requests :: "request list"

definition send :: "request \<Rightarrow> provisioner stmt" where
  "send r s = (None, s\<lparr>requests := requests s @ [r]\<rparr>)"

text \<open>\<^verbatim>\<open>kind_map.get(k, GAUGE)\<close> and \<^verbatim>\<open>type_map.get(t, INT64)\<close>.\<close>

definition kind_map_get :: "string \<Rightarrow> metric_kind" where
  "kind_map_get k =
     (if k = ''GAUGE'' then GAUGE else if k = ''DELTA'' then DELTA
      else if k = ''CUMULATIVE'' then CUMULATIVE else GAUGE)"

definition type_map_get :: "string \<Rightarrow> value_type" where
  "type_map_get t =
     (if t = ''INT64'' then INT64 else if t = ''DOUBLE'' then DOUBLE
      else if t = ''DISTRIBUTION'' then DISTRIBUTION else INT64)"

text \<open>The first part of \<^verbatim>\<open>create_log_metric\<close>, up to the comment \<^verbatim>\<open># Create the metric\<close>:
  the request object built from one catalog entry. Reading a missing mandatory key
  raises.\<close>

definition build_metric :: "metric_config \<Rightarrow> exn + log_metric" where
  "build_metric metric_config =
     (case mc_name metric_config of
        None \<Rightarrow> Inl (KeyError ''name'')
      | Some n \<Rightarrow>
     (case mc_description metric_config of
        None \<Rightarrow> Inl (KeyError ''description'')
      | Some d \<Rightarrow>
     (case mc_filter metric_config of
        None \<Rightarrow> Inl (KeyError ''filter'')
      | Some f \<Rightarrow>
          Inr \<lparr>lm_name = n, lm_description = d, lm_filter = f,
               value_extractor = (case valueExtractor metric_config of None \<Rightarrow> [] | Some x \<Rightarrow> x),
               label_extractors = (case labelExtractors metric_config of None \<Rightarrow> [] | Some x \<Rightarrow> x),
               metric_kind =
                 (case metricDescriptor metric_config of
                    None \<Rightarrow> METRIC_KIND_UNSPECIFIED
                  | Some descriptor \<Rightarrow>
                      (case metricKind descriptor of
                         None \<Rightarrow> METRIC_KIND_UNSPECIFIED
                       | Some k \<Rightarrow> kind_map_get k)),
               value_type =
                 (case metricDescriptor metric_config of
                    None \<Rightarrow> VALUE_TYPE_UNSPECIFIED
                  | Some descriptor \<Rightarrow>
                      (case valueType descriptor of
                         None \<Rightarrow> VALUE_TYPE_UNSPECIFIED
                       | Some t \<Rightarrow> type_map_get t))\<rparr>)))"

text \<open>
  \<^verbatim>\<open>create_log_metric\<close>: the value returned (\<open>None\<close> when the function falls off its
  end after printing a failure) or the exception that leaves it. Both \<^verbatim>\<open>except\<close>
  clauses catch \<^verbatim>\<open>Exception\<close> and do not raise again.
\<close>

definition create_log_metric ::
  "metrics_client \<Rightarrow> string \<Rightarrow> metric_config \<Rightarrow> provisioner \<Rightarrow>
     (exn + log_metric option) \<times> provisioner" where
  "create_log_metric client pid metric_config s =
     (case build_metric metric_config of
        Inl e \<Rightarrow> (Inl e, s)
      | Inr metric \<Rightarrow>
          (let project_name = ''projects/'' @ pid;
               s1 = snd (send (CreateLogMetric project_name metric) s)
           in case create_answer client project_name metric of
                Inr result \<Rightarrow>
                  (Inr (Some result), snd (print (''[ok] Created metric: '' @ lm_name metric) s1))
              | Inl e \<Rightarrow>
                  if \<not> is_Exception e then (Inl e, s1)
                  else if str_in ''already exists'' (lower (str_exn e)) then
                    (let s2 = snd (print (''[!]  Metric already exists: '' @ lm_name metric) s1);
                         metric_name = project_name @ ''/metrics/'' @ lm_name metric;
                         s3 = snd (send (UpdateLogMetric metric_name metric) s2)
                     in case update_answer client metric_name metric of
                          Inr result \<Rightarrow>
                            (Inr (Some result),
                             snd (print (''[..] Updated metric: '' @ lm_name metric) s3))
                        | Inl update_e \<Rightarrow>
                            if \<not> is_Exception update_e then (Inl update_e, s3)
                            else (Inr None,
                                  snd (print (''[x] Failed to update metric '' @ lm_name metric @
                                              '': '' @ str_exn update_e) s3)))
                  else (Inr None,
                        snd (print (''[x] Failed to create metric '' @ lm_name metric @
                                    '': '' @ str_exn e) s1))))"

text \<open>The loop of \<^verbatim>\<open>main\<close> over the catalog, with its two counters
  \<^verbatim>\<open>successful_metrics\<close> and \<^verbatim>\<open>failed_metrics\<close>.\<close>

fun create_metrics ::
  "metrics_client \<Rightarrow> string \<Rightarrow> metric_config list \<Rightarrow> nat \<Rightarrow> nat \<Rightarrow> provisioner \<Rightarrow>
     (exn + nat \<times> nat) \<times> provisioner" where
  "create_metrics client pid [] successful_metrics failed_metrics s =
     (Inr (successful_metrics, failed_metrics), s)"
| "create_metrics client pid (metric_config # rest) successful_metrics failed_metrics s =
     (case create_log_metric client pid metric_config s of
        (Inr r, s') \<Rightarrow>
          create_metrics client pid rest (successful_metrics + 1) failed_metrics s'
      | (Inl e, s') \<Rightarrow>
          if is_Exception e then
            create_metrics client pid rest successful_metrics (failed_metrics + 1)
              (snd (print (''[x] Failed to create metric '' @
                           (case mc_name metric_config of None \<Rightarrow> ''unknown'' | Some n \<Rightarrow> n) @
                           '': '' @ str_exn e) s'))
          else (Inl e, s'))"

text \<open>How the process ends: it runs to the end of \<^verbatim>\<open>main\<close>, calls \<^verbatim>\<open>sys.exit\<close>, or dies
  of an exception that nothing catches.\<close>

datatype outcome = Finished | Exit int | Uncaught exn

record lm_env =
  load_metrics_config :: "exn + metrics_catalog"
  client_init :: "exn option"
  lm_client :: metrics_client

text \<open>The line of the final listing for one catalog entry.\<close>

definition list_metric :: "metric_config \<Rightarrow> provisioner stmt" where
  "list_metric metric_config =
     (case mc_name metric_config of
        None \<Rightarrow> raise (KeyError ''name'')
      | Some n \<Rightarrow>
          (case mc_description metric_config of
             None \<Rightarrow> raise (KeyError ''description'')
           | Some d \<Rightarrow> print (''   * '' @ n @ '': '' @ d)))"

definition list_dashboard_metrics :: "metrics_catalog \<Rightarrow> provisioner stmt" where
  "list_dashboard_metrics config =
     (case dashboardMetrics config of
        None \<Rightarrow> skip
      | Some dashboard_metrics \<Rightarrow>
          seq (print [])
         (seq (print ''[..] Dashboard metric categories:'')
            (for_each dashboard_metrics (\<lambda>p. case p of (category, ms) \<Rightarrow>
               seq (print (''   '' @ title category @ '':''))
                 (for_each ms (\<lambda>metric. print (''     - '' @ metric)))))))"

definition next_steps :: "provisioner stmt" where
  "next_steps =
     seq (print [])
    (seq (print ''[..] Next steps:'')
    (seq (print ''   1. Deploy Cloud Functions with structured logging'')
    (seq (print ''   2. Generate some test traffic to populate metrics'')
    (seq (print ''   3. Create monitoring dashboard'')
    (seq (print ''   4. Set up alerting policies'')
         (print ''   5. Configure budget alerts for Vertex AI''))))))"

text \<open>What \<^verbatim>\<open>main\<close> prints after the loop: the summary, the link, the final listing.\<close>

definition report_metrics ::
  "string \<Rightarrow> metrics_catalog \<Rightarrow> nat \<Rightarrow> nat \<Rightarrow> provisioner stmt" where
  "report_metrics pid config successful_metrics failed_metrics =
     seq (print [])
    (seq (print ''[..] Summary:'')
    (seq (print (''   [ok] Successfully created/updated: '' @ str_nat successful_metrics @
                 '' metrics''))
    (seq (if failed_metrics > 0
          then print (''   [x] Failed: '' @ str_nat failed_metrics @ '' metrics'') else skip)
    (seq (print [])
    (seq (print ''[..] View metrics in Cloud Console:'')
    (seq (print (''   https://console.cloud.google.com/logs/metrics?project='' @ pid))
    (seq (print [])
    (seq (print ''[..] Created metrics for monitoring:'')
    (seq (for_each (get_metrics config) list_metric)
    (seq (list_dashboard_metrics config)
         next_steps))))))))))"

definition lm_main :: "string list \<Rightarrow> lm_env \<Rightarrow> provisioner \<Rightarrow> outcome \<times> provisioner" where
  "lm_main argv E s0 =
     (if length argv \<noteq> 2 then
        (Exit 1, snd (print ''Usage: python3 create-log-metrics.py <project_id>'' s0))
      else
        (let pid = argv ! 1;
             config_path = ''log-metrics.yaml'';
             s1 = snd (seq (print ''[..] Setting up advanced log-based metrics for DressUp AI'')
                      (seq (print (''[..] Project: '' @ pid))
                      (seq (print (''[..] Config: '' @ config_path))
                           (print []))) s0)
         in case load_metrics_config E of
              Inl e \<Rightarrow>
                if is_FileNotFoundError e then
                  (Exit 1,
                   snd (seq (print (''[x] Configuration file not found: '' @ config_path))
                          (print ''Make sure you're running this script from the monitoring directory.'')
                          s1))
                else if is_YAMLError e then
                  (Exit 1, snd (print (''[x] Failed to parse YAML configuration: '' @ str_exn e) s1))
                else (Uncaught e, s1)
            | Inr config \<Rightarrow>
                (case client_init E of
                   Some e \<Rightarrow>
                     if is_Exception e then
                       (Exit 1,
                        snd (seq (print (''[x] Failed to initialize Google Cloud Logging client: '' @
                                         str_exn e))
                            (seq (print ''Make sure you have the google-cloud-logging package installed:'')
                                 (print ''pip install google-cloud-logging'')) s1))
                     else (Uncaught e, s1)
                 | None \<Rightarrow>
                     (let metrics_config = get_metrics config;
                          s2 = snd (seq (print (''[..] Creating '' @ str_nat (length metrics_config) @
                                                '' log-based metrics...''))
                                      (print []) s1)
                      in case create_metrics (lm_client E) pid metrics_config 0 0 s2 of
                           (Inl e, s3) \<Rightarrow> (Uncaught e, s3)
                         | (Inr (successful_metrics, failed_metrics), s3) \<Rightarrow>
                             (case report_metrics pid config successful_metrics failed_metrics s3 of
                                (Some e, s4) \<Rightarrow> (Uncaught e, s4)
                              | (None, s4) \<Rightarrow> (Finished, s4))))))"

section \<open>The budget provisioner (\<^verbatim>\<open>create-budget-alerts.py\<close>)\<close>

datatype basis = BASIS_UNSPECIFIED | CURRENT_SPEND | FORECASTED_SPEND

text \<open>The threshold percentages are the decimal literals of the source, kept exactly.\<close>

record threshold_rule =
  threshold_percent :: rat
  spend_basis :: basis

record budget_filter =
  projects :: "string list"
  services :: "string list"

record money =
  currency_code :: string
  units :: int

record all_updates_rule =
  monitoring_notification_channels :: "string list"
  disable_default_iam_recipients :: bool

record budget =
  resource_name :: string
  budget_name :: string
  filter_of :: budget_filter
  amount :: money
  threshold_rules :: "threshold_rule list"
  updates_rule :: all_updates_rule

text \<open>The budgets endpoint: its answer to a create call (parent, budget). The state
  keeps every call made.\<close>

record budget_console = console +
  submitted :: "(string \<times> budget) list"

definition default_services :: "string list" where
  "default_services =
     [''services/aiplatform.googleapis.com'',
      ''services/cloudfunctions.googleapis.com'',
      ''services/storage.googleapis.com'',
      ''services/logging.googleapis.com'',
      ''services/monitoring.googleapis.com'']"

text \<open>
  \<^verbatim>\<open>create_budget\<close>. The fields \<open>budget_name\<close>, \<open>filter_of\<close> and \<open>updates_rule\<close> are the
  \<^verbatim>\<open>Budget\<close> fields \<^verbatim>\<open>display_name\<close>, \<^verbatim>\<open>budget_filter\<close> and \<^verbatim>\<open>all_updates_rule\<close>;
  \<open>resource_name\<close> is the field \<^verbatim>\<open>name\<close>, which the endpoint assigns. The \<^verbatim>\<open>except\<close>
  clause prints and raises the exception again.
\<close>

definition create_budget ::
  "(string \<Rightarrow> budget \<Rightarrow> exn + budget) \<Rightarrow> string \<Rightarrow> string \<Rightarrow> int \<Rightarrow> string \<Rightarrow>
     string list option \<Rightarrow> string list option \<Rightarrow> budget_console \<Rightarrow>
     (exn + budget) \<times> budget_console" where
  "create_budget client billing_account pid budget_amount display services_arg
       notification_channels s =
     (let services_used = (case services_arg of None \<Rightarrow> default_services | Some x \<Rightarrow> x);
          bfilter = \<lparr>projects = [''projects/'' @ pid], services = services_used\<rparr>;
          amt = \<lparr>currency_code = ''USD'', units = budget_amount\<rparr>;
          rules =
            [\<lparr>threshold_percent = 5 / 10, spend_basis = CURRENT_SPEND\<rparr>,
             \<lparr>threshold_percent = 75 / 100, spend_basis = CURRENT_SPEND\<rparr>,
             \<lparr>threshold_percent = 9 / 10, spend_basis = CURRENT_SPEND\<rparr>,
             \<lparr>threshold_percent = 1, spend_basis = CURRENT_SPEND\<rparr>,
             \<lparr>threshold_percent = 11 / 10, spend_basis = CURRENT_SPEND\<rparr>];
          updates =
            \<lparr>monitoring_notification_channels =
               (case notification_channels of None \<Rightarrow> [] | Some x \<Rightarrow> x),
             disable_default_iam_recipients = False\<rparr>;
          b = \<lparr>resource_name = [], budget_name = display, filter_of = bfilter, amount = amt,
               threshold_rules = rules, updates_rule = updates\<rparr>;
          parent = ''billingAccounts/'' @ billing_account;
          s1 = s\<lparr>submitted := submitted s @ [(parent, b)]\<rparr>
      in case client parent b of
           Inr result \<Rightarrow> (Inr result, s1)
         | Inl e \<Rightarrow>
             if is_Exception e then
               (Inl e, snd (print (''[x] Failed to create budget '' @ quote display @ '': '' @
                                    str_exn e) s1))
             else (Inl e, s1))"

section \<open>The dashboard provisioner (\<^verbatim>\<open>create-dashboard.py\<close>)\<close>

text \<open>
  The dashboard layout file, as the nested mappings that \<^verbatim>\<open>json.load\<close> returns. At
  every level the run reads one key with \<^verbatim>\<open>.get(key, default)\<close>; \<open>None\<close> is the absent
  key. A chart data set and a scorecard are both read through their key
  \<^verbatim>\<open>'timeSeriesQuery'\<close> only.
\<close>

record ts_filter =
  filter_key :: "string option"

record ts_query =
  timeSeriesFilter :: "ts_filter option"

record query_holder =
  timeSeriesQuery :: "ts_query option"

record chart_config =
  dataSets :: "query_holder list option"

record widget_config =
  xyChart :: "chart_config option"
  scorecard_key :: "query_holder option"

record tile_config =
  widget_key :: "widget_config option"

record layout_config =
  tiles_key :: "tile_config list option"

record dashboard_config =
  displayName :: "string option"
  mosaicLayout :: "layout_config option"

text \<open>\<^verbatim>\<open>s.split(sep)\<close> for a non-empty separator.\<close>

function split :: "string \<Rightarrow> string \<Rightarrow> string list" where
  "split [] sep = [[]]"
| "split (c # s) sep =
     (if sep \<noteq> [] \<and> startswith (c # s) sep
      then [] # split (drop (length sep) (c # s)) sep
      else (case split s sep of
              [] \<Rightarrow> [[c]]
            | p # ps \<Rightarrow> (c # p) # ps))"
  by pat_completeness auto
termination
  by (relation "measure (\<lambda>(s, sep). length s)") (auto simp: neq_Nil_conv)

declare split.simps(2) [simp del]

text \<open>\<^verbatim>\<open>s.strip(chars)\<close>.\<close>

definition strip :: "string \<Rightarrow> string \<Rightarrow> string" where
  "strip s chars =
     rev (dropWhile (\<lambda>c. c \<in> set chars) (rev (dropWhile (\<lambda>c. c \<in> set chars) s)))"

text \<open>\<^verbatim>\<open>xs[i]\<close> for a non-negative index.\<close>

definition item :: "'a list \<Rightarrow> nat \<Rightarrow> exn + 'a" where
  "item xs i = (if i < length xs then Inr (xs ! i) else Inl (IndexError ''list index out of range''))"

text \<open>
  The extraction that \<^verbatim>\<open>validate_metrics_references\<close> applies to a filter string, once
  for every chart data set and once for every scorecard: the metric name to add to
  \<^verbatim>\<open>referenced_metrics\<close>, if any.
\<close>

definition extract_metric :: "string \<Rightarrow> exn + string option" where
  "extract_metric filter_str =
     (if str_in ''metric.type='' filter_str then
        (case item (split filter_str ''metric.type='') 1 of
           Inl e \<Rightarrow> Inl e
         | Inr after \<Rightarrow>
             (case item (split after '' '') 0 of
                Inl e \<Rightarrow> Inl e
              | Inr word \<Rightarrow>
                  (let metric_part = strip word [CHR 0x22]
                   in if startswith metric_part user_prefix
                      then Inr (Some (replace metric_part user_prefix []))
                      else Inr None)))
      else Inr None)"

text \<open>The chain \<^verbatim>\<open>x.get('timeSeriesQuery', {}).get('timeSeriesFilter', {}).get('filter', '')\<close>.\<close>

definition filter_str_of :: "query_holder \<Rightarrow> string" where
  "filter_str_of h =
     (case timeSeriesQuery h of
        None \<Rightarrow> []
      | Some q \<Rightarrow>
          (case timeSeriesFilter q of
             None \<Rightarrow> []
           | Some f \<Rightarrow> (case filter_key f of None \<Rightarrow> [] | Some x \<Rightarrow> x)))"

text \<open>\<^verbatim>\<open>referenced_metrics.add(metric_name)\<close> after the extraction. The set is kept as a
  list without repetition, in the order of first insertion.\<close>

definition add_reference :: "string \<Rightarrow> string list \<Rightarrow> exn + string list" where
  "add_reference filter_str referenced_metrics =
     (case extract_metric filter_str of
        Inl e \<Rightarrow> Inl e
      | Inr None \<Rightarrow> Inr referenced_metrics
      | Inr (Some metric_name) \<Rightarrow>
          Inr (if metric_name \<in> set referenced_metrics then referenced_metrics
               else referenced_metrics @ [metric_name]))"

text \<open>The inner loop over a chart's data sets.\<close>

fun scan_data_sets :: "query_holder list \<Rightarrow> string list \<Rightarrow> exn + string list" where
  "scan_data_sets [] referenced_metrics = Inr referenced_metrics"
| "scan_data_sets (data_set # rest) referenced_metrics =
     (case add_reference (filter_str_of data_set) referenced_metrics of
        Inl e \<Rightarrow> Inl e
      | Inr r \<Rightarrow> scan_data_sets rest r)"

text \<open>The body of the loop over the tiles: the chart's data sets, then the scorecard.\<close>

definition scan_tile :: "tile_config \<Rightarrow> string list \<Rightarrow> exn + string list" where
  "scan_tile tile referenced_metrics =
     (let data_sets =
            (case widget_key tile of
               None \<Rightarrow> []
             | Some w \<Rightarrow>
                 (case xyChart w of
                    None \<Rightarrow> []
                  | Some ch \<Rightarrow> (case dataSets ch of None \<Rightarrow> [] | Some ds \<Rightarrow> ds)));
          scorecard_filter =
            (case widget_key tile of
               None \<Rightarrow> []
             | Some w \<Rightarrow>
                 (case scorecard_key w of None \<Rightarrow> [] | Some sc \<Rightarrow> filter_str_of sc))
      in case scan_data_sets data_sets referenced_metrics of
           Inl e \<Rightarrow> Inl e
         | Inr r \<Rightarrow> add_reference scorecard_filter r)"

fun scan_tiles :: "tile_config list \<Rightarrow> string list \<Rightarrow> exn + string list" where
  "scan_tiles [] referenced_metrics = Inr referenced_metrics"
| "scan_tiles (tile # rest) referenced_metrics =
     (case scan_tile tile referenced_metrics of
        Inl e \<Rightarrow> Inl e
      | Inr r \<Rightarrow> scan_tiles rest r)"

text \<open>\<^verbatim>\<open>dashboard_config.get('mosaicLayout', {}).get('tiles', [])\<close>.\<close>

definition tiles_of :: "dashboard_config \<Rightarrow> tile_config list" where
  "tiles_of dashboard_config =
     (case mosaicLayout dashboard_config of
        None \<Rightarrow> []
      | Some layout \<Rightarrow> (case tiles_key layout of None \<Rightarrow> [] | Some ts \<Rightarrow> ts))"

definition issue_text :: "string \<Rightarrow> string" where
  "issue_text metric = ''Dashboard references undefined metric: '' @ metric"

text \<open>
  \<^verbatim>\<open>validate_metrics_references\<close>: the list of issues, or the exception that leaves the
  function. The referenced names are visited in the order of their first insertion
  (the source iterates over a set, whose order is not fixed).
\<close>

definition validate_metrics_references ::
  "dashboard_config \<Rightarrow> metrics_catalog \<Rightarrow> exn + string list" where
  "validate_metrics_references dashboard_config metrics_config =
     (case scan_tiles (tiles_of dashboard_config) [] of
        Inl e \<Rightarrow> Inl e
      | Inr referenced_metrics \<Rightarrow>
          (case metric_names (get_metrics metrics_config) of
             Inl e \<Rightarrow> Inl e
           | Inr defined_metrics \<Rightarrow>
               Inr (map issue_text
                      (filter (\<lambda>metric. metric \<notin> set defined_metrics) referenced_metrics))))"

section \<open>Notions used to state the properties\<close>

subsection \<open>The accumulator's invariant\<close>

text \<open>The test list recorded for a category (empty when there is none).\<close>

definition tests_of :: "validator \<Rightarrow> string \<Rightarrow> test_entry list" where
  "tests_of v cat =
     (case results v cat of
        None \<Rightarrow> []
      | Some c \<Rightarrow> (case tests c of None \<Rightarrow> [] | Some ts \<Rightarrow> ts))"

text \<open>A category has a test list, and its two counters add up to the list's length.\<close>

definition category_consistent :: "category \<Rightarrow> bool" where
  "category_consistent c =
     (case tests c of None \<Rightarrow> False | Some ts \<Rightarrow> passed c + failed c = length ts)"

text \<open>All five keys are present, the overall counters are the sums of the four
  categories' counters, every category is consistent, and \<^verbatim>\<open>'overall'\<close> has no test
  list.\<close>

definition counters_consistent :: "validator \<Rightarrow> bool" where
  "counters_consistent v =
     (case (results v ''structured_logging'', results v ''log_metrics'',
            results v ''dashboard'', results v ''budgets'', results v ''overall'') of
        (Some a, Some b, Some c, Some d, Some ov) \<Rightarrow>
          passed ov = passed a + passed b + passed c + passed d \<and>
          failed ov = failed a + failed b + failed c + failed d \<and>
          category_consistent a \<and> category_consistent b \<and>
          category_consistent c \<and> category_consistent d \<and>
          tests ov = None
      | _ \<Rightarrow> False)"

text \<open>The states reached from the initial state by calls to \<^verbatim>\<open>log_test_result\<close> whose
  category is one of the four component categories.\<close>

inductive logged :: "validator \<Rightarrow> bool" where
  logged_init: "logged (init_validator pid)"
| logged_step: "logged v \<Longrightarrow> cat \<in> set component_categories \<Longrightarrow>
     log_test_result cat test_name psd dtl v = (r, v') \<Longrightarrow> logged v'"

subsection \<open>Preservation of a state property by a statement\<close>

text \<open>A statement keeps a property of the state, whether it ends normally or raises.\<close>

definition keeps :: "(validator \<Rightarrow> bool) \<Rightarrow> step \<Rightarrow> bool" where
  "keeps P f = (\<forall>v. P v \<longrightarrow> P (snd (f v)))"

text \<open>A statement raises from every consistent state.\<close>

definition always_raises :: "step \<Rightarrow> bool" where
  "always_raises g = (\<forall>v. counters_consistent v \<longrightarrow> fst (g v) \<noteq> None)"

subsection \<open>Concrete runs of the validation aggregator\<close>

text \<open>The overall counters \<open>(passed, failed)\<close> of a state.\<close>

definition overall_counters :: "validator \<Rightarrow> (nat \<times> nat) option" where
  "overall_counters v = map_option (\<lambda>c. (passed c, failed c)) (results v ''overall'')"

text \<open>A project in which every check of the four component categories succeeds.\<close>

definition all_pass_env :: env where
  "all_pass_env =
     \<lparr>list_entries = Inr [JsonPayload (Some [''eventType'', ''timestamp'', ''functionName''])],
      open_log_metrics_yaml =
        Inr \<lparr>metrics = Some [\<lparr>mc_name = Some ''m'', mc_description = None, mc_filter = None,
                                valueExtractor = None, labelExtractors = None,
                                metricDescriptor = None\<rparr>],
             dashboardMetrics = None\<rparr>,
      list_metric_descriptors = Inr [''logging.googleapis.com/user/m''],
      list_time_series = (\<lambda>flt. Inr [''series'']),
      list_dashboards =
        Inr [\<lparr>display_name = ''DressUp AI'',
              mosaic_layout =
                Some [\<lparr>xy_chart = None, scorecard = Some ''logging.googleapis.com/user/m''\<rparr>]\<rparr>],
      hash_order = True,
      billing_client = None,
      get_project_billing_info =
        Inr \<lparr>billing_enabled = True, billing_account_name = ''billingAccounts/1''\<rparr>,
      budgets_client = None,
      list_budgets =
        (\<lambda>parent. Inr [\<lparr>budget_display_name = ''DressUp AI'', threshold_rules_count = 5\<rparr>]),
      now = ''2026'',
      init_clients = None,
      write_report = (\<lambda>path. None)\<rparr>"

text \<open>The same project, but the listing of metric descriptors raises.\<close>

definition descriptor_failure_env :: env where
  "descriptor_failure_env =
     all_pass_env\<lparr>list_metric_descriptors := Inl (Exception ''503 unavailable'')\<rparr>"

text \<open>The same project with billing disabled.\<close>

definition billing_disabled_env :: env where
  "billing_disabled_env =
     all_pass_env\<lparr>get_project_billing_info :=
       Inr \<lparr>billing_enabled = False, billing_account_name = []\<rparr>\<rparr>"

definition plain_args :: args where
  "plain_args = \<lparr>arg_project_id = ''p'', report_file = None, verbose = False\<rparr>"

text \<open>A state in which three categories hold one passed test each and the budget
  category holds two failed tests.\<close>

definition one_passed :: category where
  "one_passed =
     \<lparr>passed = 1, failed = 0,
      tests = Some [\<lparr>name = ''t'', test_entry.passed = True, details = []\<rparr>]\<rparr>"

definition two_failed :: category where
  "two_failed =
     \<lparr>passed = 0, failed = 2,
      tests = Some [\<lparr>name = ''Billing enabled'', test_entry.passed = False, details = []\<rparr>,
                    \<lparr>name = ''u'', test_entry.passed = False, details = []\<rparr>]\<rparr>"

definition three_of_four :: validator where
  "three_of_four =
     \<lparr>out = [], project_id = ''p'', project_name = ''projects/p'',
      results =
        [''structured_logging'' \<mapsto> one_passed, ''log_metrics'' \<mapsto> one_passed,
         ''dashboard'' \<mapsto> one_passed, ''budgets'' \<mapsto> two_failed,
         ''overall'' \<mapsto> \<lparr>passed = 3, failed = 2, tests = None\<rparr>],
      calls = []\<rparr>"

subsection \<open>The scoring rule, in the words of the specification\<close>




definition end_to_end_header :: string where
  "end_to_end_header = CHR 0x0A # ''[..] Testing End-to-End Monitoring Flow...''"

fun is_ListBudgets :: "api_call \<Rightarrow> bool" where
  "is_ListBudgets (ListBudgets parent) = True"
| "is_ListBudgets _ = False"

section \<open>Properties of the result accumulator\<close>

lemma init_consistent: "counters_consistent (init_validator pid)"
  by (simp add: counters_consistent_def init_validator_def init_results_def
      category_consistent_def)

lemma log_step:
  assumes "counters_consistent v" and "cat \<in> set component_categories"
  shows "\<exists>v'. log_test_result cat n p d v = (None, v') \<and> counters_consistent v' \<and>
           tests_of v' cat =
             tests_of v cat @ [\<lparr>name = n, test_entry.passed = p, details = d\<rparr>] \<and>
           (\<forall>c. c \<noteq> cat \<longrightarrow> tests_of v' c = tests_of v c)"
proof -
  from assms(2) consider "cat = ''structured_logging''" | "cat = ''log_metrics''"
    | "cat = ''dashboard''" | "cat = ''budgets''"
    by (auto simp: component_categories_def)
  then show ?thesis
    using assms(1)
    by cases
      (auto simp: counters_consistent_def log_test_result_def seq_def append_test_def
         incr_passed_def incr_failed_def print_def skip_def tests_of_def
         category_consistent_def split: option.splits)
qed

lemma logged_consistent: "logged v \<Longrightarrow> counters_consistent v"
proof (induction rule: logged.induct)
  case (logged_init pid)
  show ?case by (rule init_consistent)
next
  case (logged_step v cat test_name psd dtl r v')
  from log_step[OF logged_step.IH logged_step.hyps(2), of test_name psd dtl]
  show ?case using logged_step.hyps(3) by auto
qed

text \<open>
  C10. In every state reached from the initial state by calls to \<^verbatim>\<open>log_test_result\<close>
  with a category among the four component categories, the overall passed counter is
  the sum of the four categories' passed counters, the overall failed counter is the
  sum of their failed counters, and each category's passed plus failed is the length
  of its test list. A further such call ends normally, keeps all that, appends exactly
  one entry \<open>{name, passed, details}\<close> to the list of the category named, and leaves
  the list of every other category as it was.
\<close>

theorem accumulator_invariant:
  assumes "logged v" and "cat \<in> set component_categories"
  shows "counters_consistent v \<and>
         (\<exists>v'. log_test_result cat n p d v = (None, v') \<and> counters_consistent v' \<and>
            tests_of v' cat =
              tests_of v cat @ [\<lparr>name = n, test_entry.passed = p, details = d\<rparr>] \<and>
            (\<forall>c. c \<noteq> cat \<longrightarrow> tests_of v' c = tests_of v c))"
  using logged_consistent[OF assms(1)] log_step[OF _ assms(2)] by blast

theorem accumulator_invariant_witness:
  "logged (init_validator ''p'') \<and> ''dashboard'' \<in> set component_categories \<and>
   counters_consistent (init_validator ''p'') \<and>
   (\<exists>v'. log_test_result ''dashboard'' ''Dashboard existence'' True ''Found 1''
            (init_validator ''p'') = (None, v') \<and>
      counters_consistent v' \<and>
      tests_of v' ''dashboard'' =
        tests_of (init_validator ''p'') ''dashboard'' @
          [\<lparr>name = ''Dashboard existence'', test_entry.passed = True, details = ''Found 1''\<rparr>] \<and>
      (\<forall>c. c \<noteq> ''dashboard'' \<longrightarrow> tests_of v' c = tests_of (init_validator ''p'') c))"
proof -
  have a: "logged (init_validator ''p'')" by (rule logged_init)
  have b: "''dashboard'' \<in> set component_categories" by (simp add: component_categories_def)
  show ?thesis
    using a b accumulator_invariant[OF a b, of "''Dashboard existence''" True "''Found 1''"]
    by simp
qed

section \<open>Every run of the validation aggregator ends in an exception\<close>

lemma keeps_skip: "keeps P skip"
  by (simp add: keeps_def skip_def)
lemma keeps_raise: "keeps P (raise e)"
  by (simp add: keeps_def raise_def)
lemma keeps_seq: "keeps P f \<Longrightarrow> keeps P g \<Longrightarrow> keeps P (seq f g)"
  by (auto simp: keeps_def seq_def split: prod.splits option.splits)
lemma keeps_try: "keeps P f \<Longrightarrow> (\<And>e. keeps P (h e)) \<Longrightarrow> keeps P (try_except f h)"
  by (auto simp: keeps_def try_except_def split: prod.splits option.splits)
lemma keeps_if: "keeps P f \<Longrightarrow> keeps P g \<Longrightarrow> keeps P (if b then f else g)"
  by simp
lemma cc_results: "results v' = results v \<Longrightarrow> counters_consistent v' = counters_consistent v"
  by (simp add: counters_consistent_def)
lemma keeps_print: "keeps counters_consistent (print s)"
  by (simp add: keeps_def print_def counters_consistent_def)
lemma keeps_api: "keeps counters_consistent (api c)"
  by (simp add: keeps_def api_def counters_consistent_def)
lemma keeps_call: "(\<And>x. keeps counters_consistent (k x)) \<Longrightarrow> keeps counters_consistent (call c a k)"
  by (auto simp: call_def intro!: keeps_seq keeps_api keeps_raise split: sum.splits)
lemma keeps_construct: "keeps P (construct r)"
  by (auto simp: construct_def keeps_skip keeps_raise split: option.splits)
lemma keeps_for_each: "(\<And>x. keeps P (body x)) \<Longrightarrow> keeps P (for_each xs body)"
  by (induction xs) (auto intro: keeps_skip keeps_seq)
lemma keeps_log:
  "cat \<in> set component_categories \<Longrightarrow> keeps counters_consistent (log_test_result cat n p d)"
  unfolding keeps_def using log_step by (metis snd_conv)

lemmas keeps_intros = keeps_skip keeps_raise keeps_seq keeps_try keeps_print keeps_api keeps_call
  keeps_construct keeps_for_each keeps_log keeps_if

lemma in_cc: "''structured_logging'' \<in> set component_categories" "''log_metrics'' \<in> set component_categories"
  "''dashboard'' \<in> set component_categories" "''budgets'' \<in> set component_categories"
  by (simp_all add: component_categories_def)

lemma keeps_structured: "keeps counters_consistent (test_structured_logging E)"
  unfolding test_structured_logging_def
  by (intro keeps_intros in_cc | simp add: Let_def split: payload.splits option.splits | intro conjI allI impI)+

lemma keeps_dashboard: "keeps counters_consistent (test_dashboard E)"
  unfolding test_dashboard_def
  by (intro keeps_intros in_cc | simp add: Let_def split: option.splits | intro conjI allI impI)+

lemma keeps_budget: "keeps counters_consistent (test_budget_alerts E)"
  unfolding test_budget_alerts_def
  by (intro keeps_intros in_cc | simp add: Let_def split: option.splits | intro conjI allI impI)+

lemma cc_keys:
  assumes "counters_consistent v"
  obtains a b c d ov where
    "results v ''structured_logging'' = Some a" "results v ''log_metrics'' = Some b"
    "results v ''dashboard'' = Some c" "results v ''budgets'' = Some d"
    "results v ''overall'' = Some ov" "tests ov = None"
    "category_consistent a" "category_consistent b" "category_consistent c" "category_consistent d"
    "passed ov = passed a + passed b + passed c + passed d"
    "failed ov = failed a + failed b + failed c + failed d"
  using assms unfolding counters_consistent_def
  by (auto split: option.splits)

lemma e2e_raises:
  assumes "counters_consistent v"
  shows "\<exists>v'. test_end_to_end_flow v = (Some (KeyError ''tests''), v') \<and> results v' = results v \<and> calls v' = calls v"
proof -
  from assms obtain a b c d ov where k:
    "results v ''structured_logging'' = Some a" "results v ''log_metrics'' = Some b"
    "results v ''dashboard'' = Some c" "results v ''budgets'' = Some d"
    "results v ''overall'' = Some ov" "tests ov = None"
    by (rule cc_keys)
  show ?thesis
    by (simp add: test_end_to_end_flow_def seq_def print_def pipeline_components_def
      log_test_result_def append_test_def k)
qed

lemma load_results: "results (snd (load_expected_metrics E v)) = results v"
  by (cases "open_log_metrics_yaml E") (simp_all add: load_expected_metrics_def print_def)

lemma keeps_load: "counters_consistent v \<Longrightarrow> counters_consistent (snd (load_expected_metrics E v))"
  using cc_results[OF load_results] by simp

lemma keeps_existence: "keeps counters_consistent (metrics_existence_test E ex)"
  unfolding metrics_existence_test_def
  by (intro keeps_intros in_cc | simp add: Let_def split: option.splits | intro conjI allI impI)+

lemma keeps_data: "keeps counters_consistent (metric_data_test E ex)"
  unfolding metric_data_test_def
  by (intro keeps_intros in_cc | simp add: Let_def split: option.splits | intro conjI allI impI)+

lemma keeps_log_metrics: "keeps counters_consistent (test_log_metrics E)"
  unfolding keeps_def
proof (intro allI impI)
  fix v assume cc: "counters_consistent v"
  let ?v1 = "snd (print (CHR 0x0A # ''[..] Testing Log-Based Metrics...'') v)"
  have c1: "counters_consistent ?v1" using keeps_print cc by (simp add: keeps_def)
  obtain r v2 where l: "load_expected_metrics E ?v1 = (r, v2)" by (cases "load_expected_metrics E ?v1")
  have c2: "counters_consistent v2" using keeps_load[OF c1, of E] l by simp
  show "counters_consistent (snd (test_log_metrics E v))"
  proof (cases r)
    case (Inl e)
    then show ?thesis using l c2 by (simp add: test_log_metrics_def)
  next
    case (Inr expected)
    have "keeps counters_consistent (seq (metrics_existence_test E expected) (metric_data_test E expected))"
      by (intro keeps_seq keeps_existence keeps_data)
    then show ?thesis using l c2 Inr by (simp add: test_log_metrics_def keeps_def)
  qed
qed

lemma seq_raises_last:
  "keeps counters_consistent f \<Longrightarrow> always_raises g \<Longrightarrow> always_raises (seq f g)"
  by (auto simp: always_raises_def keeps_def seq_def split: prod.splits option.splits)

lemma e2e_always_raises: "always_raises test_end_to_end_flow"
  unfolding always_raises_def using e2e_raises by fastforce

lemma run_tests_raises: "always_raises (run_tests E)"
  unfolding run_tests_def
  by (intro seq_raises_last keeps_structured keeps_log_metrics keeps_dashboard keeps_budget
        e2e_always_raises)

lemma run_validation_raises: "\<exists>e v. run_validation E (init_validator pid) = (Inl e, v)"
proof -
  let ?pre = "seq (print ''[..] Starting DressUp AI Monitoring Validation'')
            (seq (print (''[..] Project: '' @ project_id (init_validator pid)))
            (seq (print (replicate 60 CHR ''='')) (run_tests E)))"
  have "always_raises ?pre"
    by (intro seq_raises_last keeps_print run_tests_raises)
  then have "fst (?pre (init_validator pid)) \<noteq> None"
    using init_consistent by (simp add: always_raises_def)
  then obtain e v where "?pre (init_validator pid) = (Some e, v)"
    by (cases "?pre (init_validator pid)") auto
  then show ?thesis unfolding run_validation_def by simp
qed

lemma main_exit_status: "fst (main a E) = 1"
proof -
  obtain e v where "run_validation E (init_validator (arg_project_id a)) = (Inl e, v)"
    using run_validation_raises by blast
  then show ?thesis
    by (simp add: main_def on_error_def split: option.splits)
qed

section \<open>Concrete runs\<close>

text \<open>
  C1. The claim: the exit status of the validation aggregator is 0 when the overall
  status is PASS (passed over total at least 75 percent) and 1 on FAIL or a fatal error,
  and failures of single tests open no other exit path. The run below is the one in
  which every check of the four categories passes: ten tests recorded, none failed, a
  rate whose status is PASS. The run ends in \<^verbatim>\<open>KeyError('tests')\<close>, raised by the
  completeness step before any report is computed, and \<^verbatim>\<open>main\<close> exits with status 1.
\<close>

theorem all_pass_run_exits_1:
  "fst (run_validation all_pass_env (init_validator ''p'')) = Inl (KeyError ''tests'') \<and>
   overall_counters (snd (run_validation all_pass_env (init_validator ''p''))) = Some (10, 0) \<and>
   status_of (success_rate_of 10 (10 + 0)) = ''PASS'' \<and>
   fst (main plain_args all_pass_env) = 1"
  by code_simp

text \<open>
  C2. The claim: the test \<open>Monitoring pipeline completeness\<close> is recorded as passed
  exactly when at least three of the four categories have a passed count above 0, and
  the run then proceeds to the report. In the state with three categories at one passed
  test and the budget category at two failed tests, the step finds three working
  components, so the verdict to record is \<open>True\<close>; the call that records it raises
  \<^verbatim>\<open>KeyError('tests')\<close>, no counter moves and no list grows.
\<close>

theorem completeness_test_not_recorded:
  "counters_consistent three_of_four \<and>
   working_components_of (results three_of_four) pipeline_components =
     Inr [''Cloud Functions'', ''Log-based Metrics'', ''Monitoring Dashboard''] \<and>
   fst (test_end_to_end_flow three_of_four) = Some (KeyError ''tests'') \<and>
   overall_counters (snd (test_end_to_end_flow three_of_four)) = Some (3, 2) \<and>
   map (\<lambda>c. length (tests_of (snd (test_end_to_end_flow three_of_four)) c))
     (component_categories @ [''overall'']) = [1, 1, 1, 2, 0]"
  by code_simp

text \<open>
  C6. The claim: no failed test ends the run early; after any failed test, also when the
  listing of metric descriptors raises, every remaining test of the category and of the
  later categories still runs. In the run below the listing raises: the failed test
  \<open>Log metrics access\<close> is recorded, then the second block of \<^verbatim>\<open>test_log_metrics\<close>
  reads the unbound variable \<^verbatim>\<open>found_metrics\<close>; the exception leaves the method, the
  dashboard and budget categories record nothing, their endpoints are never called, and
  \<^verbatim>\<open>main\<close> exits with status 1.
\<close>

theorem descriptor_failure_aborts_run:
  "fst (run_tests descriptor_failure_env (init_validator ''p'')) =
     Some (UnboundLocalError ''found_metrics'') \<and>
   map name (tests_of (snd (run_tests descriptor_failure_env (init_validator ''p''))) ''log_metrics'') =
     [''Log metrics access''] \<and>
   tests_of (snd (run_tests descriptor_failure_env (init_validator ''p''))) ''dashboard'' = [] \<and>
   tests_of (snd (run_tests descriptor_failure_env (init_validator ''p''))) ''budgets'' = [] \<and>
   calls (snd (run_tests descriptor_failure_env (init_validator ''p''))) =
     [ListEntries, ListMetricDescriptors] \<and>
   fst (main plain_args descriptor_failure_env) = 1"
  by code_simp

section \<open>The billing-disabled short circuit\<close>

lemma e2e_raises_state:
  assumes "counters_consistent v"
  shows "test_end_to_end_flow v = (Some (KeyError ''tests''), v\<lparr>out := out v @ [end_to_end_header]\<rparr>)"
proof -
  from assms obtain a b c d ov where k:
    "results v ''structured_logging'' = Some a" "results v ''log_metrics'' = Some b"
    "results v ''dashboard'' = Some c" "results v ''budgets'' = Some d"
    "results v ''overall'' = Some ov" "tests ov = None"
    by (rule cc_keys)
  show ?thesis
    by (simp add: test_end_to_end_flow_def seq_def print_def pipeline_components_def
      log_test_result_def append_test_def end_to_end_header_def k)
qed

lemma log_calls: "calls (snd (log_test_result cat n p d v)) = calls v"
  by (auto simp: log_test_result_def seq_def append_test_def incr_passed_def incr_failed_def
      print_def skip_def split: option.splits prod.splits)

lemma tests_of_results: "results v' = results v \<Longrightarrow> tests_of v' c = tests_of v c"
  by (simp add: tests_of_def)

text \<open>
  The budget category alone. When the billing lookup answers that billing is disabled,
  \<^verbatim>\<open>test_budget_alerts\<close> returns normally after recording exactly one test, the failed
  test \<open>Billing enabled\<close>: the budget list grows by that one entry, no other category's
  list changes, the only endpoint call made is the billing lookup (no call lists
  budgets), and the run goes on to the completeness step, whose header is printed next.
\<close>

theorem billing_disabled_short_circuit:
  assumes "counters_consistent v"
    and "billing_client E = None"
    and "get_project_billing_info E = Inr pb"
    and "\<not> billing_enabled pb"
  shows "\<exists>v'. test_budget_alerts E v = (None, v') \<and>
           tests_of v' ''budgets'' =
             tests_of v ''budgets'' @
               [\<lparr>name = ''Billing enabled'', test_entry.passed = False,
                 details = ''Billing is not enabled for this project''\<rparr>] \<and>
           (\<forall>c. c \<noteq> ''budgets'' \<longrightarrow> tests_of v' c = tests_of v c) \<and>
           calls v' = calls v @ [GetProjectBillingInfo] \<and>
           seq (test_budget_alerts E) test_end_to_end_flow v = test_end_to_end_flow v' \<and>
           out (snd (seq (test_budget_alerts E) test_end_to_end_flow v)) =
             out v' @ [end_to_end_header]"
proof -
  let ?v1 = "v\<lparr>out := out v @ [CHR 0x0A # ''[..] Testing Budget Alerts...''],
               calls := calls v @ [GetProjectBillingInfo]\<rparr>"
  have r1: "results ?v1 = results v" by simp
  have c1: "counters_consistent ?v1" using cc_results[OF r1] assms(1) by simp
  have b: "''budgets'' \<in> set component_categories" by (simp add: component_categories_def)
  from log_step[OF c1 b, of "''Billing enabled''" False "''Billing is not enabled for this project''"]
  obtain v' where l: "log_test_result ''budgets'' ''Billing enabled'' False
        ''Billing is not enabled for this project'' ?v1 = (None, v')"
    and c': "counters_consistent v'"
    and t: "tests_of v' ''budgets'' = tests_of ?v1 ''budgets'' @
               [\<lparr>name = ''Billing enabled'', test_entry.passed = False,
                 details = ''Billing is not enabled for this project''\<rparr>]"
    and o: "\<forall>c. c \<noteq> ''budgets'' \<longrightarrow> tests_of v' c = tests_of ?v1 c"
    by blast
  have run: "test_budget_alerts E v = (None, v')"
    using l assms(2-4)
    by (simp add: test_budget_alerts_def seq_def try_except_def call_def construct_def
        skip_def print_def api_def)
  have cl: "calls v' = calls v @ [GetProjectBillingInfo]"
    using log_calls[of "''budgets''" "''Billing enabled''" False
        "''Billing is not enabled for this project''" ?v1] l by simp
  have sq: "seq (test_budget_alerts E) test_end_to_end_flow v = test_end_to_end_flow v'"
    using run by (simp add: seq_def)
  have ou: "out (snd (seq (test_budget_alerts E) test_end_to_end_flow v)) = out v' @ [end_to_end_header]"
    using sq e2e_raises_state[OF c'] by simp
  show ?thesis
    using run t o cl sq ou tests_of_results[OF r1] by auto
qed

theorem billing_disabled_short_circuit_witness:
  "counters_consistent (init_validator ''p'') \<and>
   billing_client billing_disabled_env = None \<and>
   get_project_billing_info billing_disabled_env =
     Inr \<lparr>billing_enabled = False, billing_account_name = []\<rparr> \<and>
   \<not> billing_enabled \<lparr>billing_enabled = False, billing_account_name = []\<rparr> \<and>
   (\<exists>v'. test_budget_alerts billing_disabled_env (init_validator ''p'') = (None, v') \<and>
      tests_of v' ''budgets'' =
        tests_of (init_validator ''p'') ''budgets'' @
          [\<lparr>name = ''Billing enabled'', test_entry.passed = False,
            details = ''Billing is not enabled for this project''\<rparr>] \<and>
      (\<forall>c. c \<noteq> ''budgets'' \<longrightarrow> tests_of v' c = tests_of (init_validator ''p'') c) \<and>
      calls v' = calls (init_validator ''p'') @ [GetProjectBillingInfo] \<and>
      seq (test_budget_alerts billing_disabled_env) test_end_to_end_flow (init_validator ''p'') =
        test_end_to_end_flow v' \<and>
      out (snd (seq (test_budget_alerts billing_disabled_env) test_end_to_end_flow
                 (init_validator ''p''))) = out v' @ [end_to_end_header])"
proof -
  have h1: "counters_consistent (init_validator ''p'')" by (rule init_consistent)
  have h2: "billing_client billing_disabled_env = None"
    by (simp add: billing_disabled_env_def all_pass_env_def)
  have h3: "get_project_billing_info billing_disabled_env =
     Inr \<lparr>billing_enabled = False, billing_account_name = []\<rparr>"
    by (simp add: billing_disabled_env_def all_pass_env_def)
  have h4: "\<not> billing_enabled \<lparr>billing_enabled = False, billing_account_name = []\<rparr>" by simp
  show ?thesis
    using h1 h2 h3 h4 billing_disabled_short_circuit[OF h1 h2 h3 h4] by blast
qed

section \<open>Scoring in the validation report\<close>


lemma rhe_ge: "of_int N \<le> x \<Longrightarrow> N \<le> round_half_even x"
proof -
  assume "of_int N \<le> x"
  then have "N \<le> \<lfloor>x\<rfloor>" by (simp add: le_floor_iff)
  then show ?thesis by (simp add: round_half_even_def Let_def)
qed



lemma rhe_nonneg: "0 \<le> x \<Longrightarrow> 0 \<le> round_half_even x"
  using rhe_ge[of 0 x] by simp










lemma double_of_zero: "double_of 0 = 0"
  by (simp add: double_of_def)

lemma double_nonneg: "0 \<le> double_of x"
proof (cases "x \<le> 0")
  case True
  then show ?thesis by (simp add: double_of_def)
next
  case False
  then have "0 \<le> x / 2 powi (max (binade x - 52) (- 1074))" by simp
  then have "0 \<le> round_half_even (x / 2 powi (max (binade x - 52) (- 1074)))"
    by (rule rhe_nonneg)
  then show ?thesis using False by (simp add: double_of_def Let_def)
qed



















section \<open>The run with billing disabled\<close>

text \<open>
  C9. The claim: with billing disabled, the budget category records exactly one failed
  test named \<open>Billing enabled\<close>, lists no budgets, runs no further budget test, and the
  process does not abort (the completeness step still executes). In the run below the
  first three parts hold: the budget category holds that one failed test, no call lists
  budgets, the last endpoint call is the billing lookup, and the completeness step is
  entered (its header is the last line printed by the test groups). But the completeness
  step raises \<^verbatim>\<open>KeyError('tests')\<close>, the run aborts before any report, and \<^verbatim>\<open>main\<close>
  exits with status 1.
\<close>

theorem billing_disabled_run_aborts:
  "fst (run_tests billing_disabled_env (init_validator ''p'')) = Some (KeyError ''tests'') \<and>
   tests_of (snd (run_tests billing_disabled_env (init_validator ''p''))) ''budgets'' =
     [\<lparr>name = ''Billing enabled'', test_entry.passed = False,
       details = ''Billing is not enabled for this project''\<rparr>] \<and>
   filter is_ListBudgets (calls (snd (run_tests billing_disabled_env (init_validator ''p'')))) = [] \<and>
   last (calls (snd (run_tests billing_disabled_env (init_validator ''p'')))) =
     GetProjectBillingInfo \<and>
   last (out (snd (run_tests billing_disabled_env (init_validator ''p'')))) = end_to_end_header \<and>
   fst (run_validation billing_disabled_env (init_validator ''p'')) = Inl (KeyError ''tests'') \<and>
   fst (main plain_args billing_disabled_env) = 1"
  by code_simp

end
